theory Spec2Isabelle
  imports Main "HOL-Library.Multiset"
begin

section \<open>The pixel-art application (src/pixel-art/src/App.tsx)\<close>

text \<open>
  The component \<open>App\<close> keeps six pieces of React state and changes them in event handlers.
  A handler is a closure of the render that created it: what it reads of the state
  (\<open>pixels\<close>, \<open>selectedColor\<close>, \<open>isDrawing\<close>, \<open>recentColors\<close>) is the state of that render.
  What it writes is queued on React's state: \<open>setPixels\<close>, \<open>setSelectedColor\<close>,
  \<open>setIsDrawing\<close>, \<open>setGridSize\<close> and \<open>setIsMobile\<close> are called with a value, which replaces
  the field; \<open>setRecentColors\<close> is called with an updater, which React applies to the field
  as it stands by then. A session is therefore two states: the one of the last render and
  React's own with every queued update applied.

  React renders before the next event after a click, a press or a release of the mouse
  button, a touch start or end and a change of the colour input. After a mouse-enter, a
  mouse-leave, a touch-move and a resize of the window the next event may come before the
  render; there the render is an event of its own.

  Cell coordinates are the loop counters of \<open>renderGrid\<close>, hence natural numbers (type
  \<open>nat\<close>). Colours and keys are JavaScript strings (type \<open>string\<close>).
\<close>

subsection \<open>JavaScript numbers and strings\<close>

text \<open>
  A JavaScript number that is a natural up to \<open>Number.MAX_SAFE_INTEGER\<close> is that natural
  exactly, and so are sums and products that stay in this range; beyond it numbers are
  floating point, which the type \<open>nat\<close> does not follow.
\<close>

definition MAX_SAFE_INTEGER :: nat where
  "MAX_SAFE_INTEGER = 2 ^ 53 - 1"

text \<open>
  The template literal \<open>${x}\<close> of a number that is a natural below \<open>10^21\<close> is its decimal
  representation without leading zeros; \<open>String_nat\<close> is that representation.
\<close>

definition digit_char :: "nat \<Rightarrow> char" where
  "digit_char d = ''0123456789'' ! d"

fun String_nat :: "nat \<Rightarrow> string" where
  "String_nat n =
     (if n < 10 then [digit_char n] else String_nat (n div 10) @ [digit_char (n mod 10)])"

declare String_nat.simps [simp del]

definition is_digit :: "char \<Rightarrow> bool" where
  "is_digit c = (48 \<le> (of_char c :: nat) \<and> (of_char c :: nat) \<le> 57)"

definition digit_val :: "char \<Rightarrow> nat" where
  "digit_val c = of_char c - 48"

text \<open>
  \<open>Number(s)\<close> for a string, as the application needs it: a string of decimal digits denotes
  its value and the empty string denotes 0. \<open>None\<close> stands for every other outcome: \<open>NaN\<close>,
  or the value of a literal of another form (sign, fraction, exponent, radix prefix,
  surrounding white space), which \<open>getPixelKey\<close> never produces from natural numbers.
  \<open>Number(undefined)\<close> and every product with \<open>NaN\<close> or \<open>undefined\<close> are \<open>NaN\<close> as well.
\<close>

definition Number_js :: "string \<Rightarrow> nat option" where
  "Number_js s =
     (if list_all is_digit s then Some (foldl (\<lambda>a c. 10 * a + digit_val c) 0 s) else None)"

text \<open>\<open>s.split(sep)\<close> for a separator of one character.\<close>

fun split_js :: "char \<Rightarrow> string \<Rightarrow> string list" where
  "split_js sep [] = [[]]"
| "split_js sep (c # cs) =
     (if c = sep then [] # split_js sep cs
      else (case split_js sep cs of
              [] \<Rightarrow> [[c]]
            | p # ps \<Rightarrow> (c # p) # ps))"

text \<open>
  The destructuring \<open>const [x, y] = key.split('-').map(Number)\<close>: the first two elements
  of the array, \<open>undefined\<close> (here \<open>None\<close>) where the array is too short.
\<close>

definition element :: "'a option list \<Rightarrow> nat \<Rightarrow> 'a option" where
  "element xs i = (if i < length xs then xs ! i else None)"

definition decodeKey :: "string \<Rightarrow> nat option \<times> nat option" where
  "decodeKey key =
     (let parts = map Number_js (split_js (CHR ''-'') key)
      in (element parts 0, element parts 1))"

text \<open>The product \<open>x * 10\<close> and its rendering in a template literal.\<close>

definition times10 :: "nat option \<Rightarrow> nat option" where
  "times10 v = map_option (\<lambda>n. n * 10) v"

definition String_num :: "nat option \<Rightarrow> string" where
  "String_num v = (case v of None \<Rightarrow> ''NaN'' | Some n \<Rightarrow> String_nat n)"

subsection \<open>The JavaScript \<open>Map\<close>\<close>

text \<open>
  A \<open>Map<string, string>\<close> iterates in the order in which its keys were first inserted, so
  it is an association list in that order. \<open>set\<close> overwrites the value of a key that is
  present where it stands and appends a new key at the end; \<open>delete\<close> removes the entry.
\<close>

type_synonym jsmap = "(string \<times> string) list"

fun Map_set :: "jsmap \<Rightarrow> string \<Rightarrow> string \<Rightarrow> jsmap" where
  "Map_set [] k v = [(k, v)]"
| "Map_set ((k', v') # m) k v =
     (if k' = k then (k', v) # m else (k', v') # Map_set m k v)"

definition Map_delete :: "jsmap \<Rightarrow> string \<Rightarrow> jsmap" where
  "Map_delete m k = filter (\<lambda>(k', v'). k' \<noteq> k) m"

definition Map_get :: "jsmap \<Rightarrow> string \<Rightarrow> string option" where
  "Map_get m k = map_of m k"

subsection \<open>State\<close>

record GridSize =
  width :: nat
  height :: nat

record AppState =
  gridSize :: GridSize
  selectedColor :: string
  pixels :: jsmap
  isDrawing :: bool
  isMobile :: bool
  recentColors :: "string list"

definition initialState :: AppState where
  "initialState =
     \<lparr> gridSize = \<lparr> width = 16, height = 16 \<rparr>,
       selectedColor = ''#3b82f6'',
       pixels = [],
       isDrawing = False,
       isMobile = False,
       recentColors = [''#3b82f6''] \<rparr>"

subsection \<open>Handlers\<close>

text \<open>
  A handler that reads state takes the state of its render first (\<open>r\<close>); every handler
  takes React's state last (\<open>p\<close>) and returns it with the handler's updates applied.
\<close>

definition checkMobile :: "nat \<Rightarrow> AppState \<Rightarrow> AppState" where
  "checkMobile innerWidth p =
     (let p1 = p\<lparr> isMobile := innerWidth < 768 \<rparr>
      in if innerWidth < 768 then p1\<lparr> gridSize := \<lparr> width = 16, height = 16 \<rparr> \<rparr>
         else p1\<lparr> gridSize := \<lparr> width = 32, height = 32 \<rparr> \<rparr>)"

definition getPixelKey :: "nat \<Rightarrow> nat \<Rightarrow> string" where
  "getPixelKey x y = String_nat x @ ''-'' @ String_nat y"

text \<open>The updater that \<open>addToRecentColors\<close> passes to \<open>setRecentColors\<close>.\<close>

definition recentUpdate :: "string \<Rightarrow> string list \<Rightarrow> string list" where
  "recentUpdate color prev =
     (let filtered = filter (\<lambda>c. c \<noteq> color) prev;
          newRecent = color # filtered
      in take 10 newRecent)"

definition addToRecentColors :: "string \<Rightarrow> AppState \<Rightarrow> AppState" where
  "addToRecentColors color p = p\<lparr> recentColors := recentUpdate color (recentColors p) \<rparr>"

definition handleColorChange :: "string \<Rightarrow> AppState \<Rightarrow> AppState" where
  "handleColorChange color p = addToRecentColors color (p\<lparr> selectedColor := color \<rparr>)"

text \<open>
  \<open>handlePixelClick\<close> reads \<open>event.shiftKey\<close>, \<open>handleTouchClick\<close> reads
  \<open>event.touches.length\<close>; nothing else of the event is used. Both copy the \<open>pixels\<close> of
  their render and pass the changed copy to \<open>setPixels\<close>.
\<close>

definition handlePixelClick :: "nat \<Rightarrow> nat \<Rightarrow> bool \<Rightarrow> AppState \<Rightarrow> AppState \<Rightarrow> AppState" where
  "handlePixelClick x y shiftKey r p =
     (let pixelKey = getPixelKey x y;
          newPixels = pixels r
      in if shiftKey then p\<lparr> pixels := Map_delete newPixels pixelKey \<rparr>
         else (addToRecentColors (selectedColor r) p)
                \<lparr> pixels := Map_set newPixels pixelKey (selectedColor r) \<rparr>)"

definition handleTouchClick :: "nat \<Rightarrow> nat \<Rightarrow> nat \<Rightarrow> AppState \<Rightarrow> AppState \<Rightarrow> AppState" where
  "handleTouchClick x y touches r p =
     (let pixelKey = getPixelKey x y;
          newPixels = pixels r
      in if touches > 1 then p\<lparr> pixels := Map_delete newPixels pixelKey \<rparr>
         else (addToRecentColors (selectedColor r) p)
                \<lparr> pixels := Map_set newPixels pixelKey (selectedColor r) \<rparr>)"

definition handleMouseDown :: "AppState \<Rightarrow> AppState" where
  "handleMouseDown p = p\<lparr> isDrawing := True \<rparr>"

definition handleMouseUp :: "AppState \<Rightarrow> AppState" where
  "handleMouseUp p = p\<lparr> isDrawing := False \<rparr>"

definition handlePixelMouseEnter :: "nat \<Rightarrow> nat \<Rightarrow> AppState \<Rightarrow> AppState \<Rightarrow> AppState" where
  "handlePixelMouseEnter x y r p =
     (if isDrawing r then
        (let pixelKey = getPixelKey x y;
             newPixels = Map_set (pixels r) pixelKey (selectedColor r)
         in addToRecentColors (selectedColor r) (p\<lparr> pixels := newPixels \<rparr>))
      else p)"

text \<open>\<open>handleTouchMove\<close> receives the event and only calls \<open>preventDefault\<close> on it.\<close>

definition handleTouchMove :: "nat \<Rightarrow> nat \<Rightarrow> nat \<Rightarrow> AppState \<Rightarrow> AppState \<Rightarrow> AppState" where
  "handleTouchMove touches x y r p =
     (if isDrawing r then
        (let pixelKey = getPixelKey x y;
             newPixels = Map_set (pixels r) pixelKey (selectedColor r)
         in addToRecentColors (selectedColor r) (p\<lparr> pixels := newPixels \<rparr>))
      else p)"

definition clearCanvas :: "AppState \<Rightarrow> AppState" where
  "clearCanvas p = p\<lparr> pixels := [] \<rparr>"

text \<open>
  The button of the recent colour at index \<open>i\<close> exists in a render whose list has that
  index; it calls \<open>setSelectedColor\<close> on the colour it shows and nothing else.
\<close>

definition swatchClick :: "nat \<Rightarrow> AppState \<Rightarrow> AppState \<Rightarrow> AppState" where
  "swatchClick i r p =
     (if i < length (recentColors r) then p\<lparr> selectedColor := recentColors r ! i \<rparr> else p)"

subsection \<open>Sessions and events, as the rendered elements dispatch them\<close>

record Session =
  rendered :: AppState
  pending :: AppState

definition settled :: "AppState \<Rightarrow> Session" where
  "settled s = \<lparr> rendered = s, pending = s \<rparr>"

definition initialSession :: Session where
  "initialSession = settled initialState"

definition render :: "Session \<Rightarrow> Session" where
  "render t = t\<lparr> rendered := pending t \<rparr>"

definition queue :: "(AppState \<Rightarrow> AppState) \<Rightarrow> Session \<Rightarrow> Session" where
  "queue f t = t\<lparr> pending := f (pending t) \<rparr>"

text \<open>
  Every cell \<open>(x, y)\<close> of \<open>renderGrid\<close> has listeners for click, mouse enter, mouse down,
  touch start, touch end and touch move, bound to its own \<open>x\<close> and \<open>y\<close>; the grid container
  releases on mouse up and mouse leave; the colour input calls \<open>handleColorChange\<close>. The
  flags an event carries are kept in the event also where the handler does not read them.

  A browser sends the touch-move events of a contact to the element on which the contact
  began, so the listener that runs is the one of that cell: \<open>CellTouchMove x y fx fy n\<close> is
  a move of a contact that began on the cell \<open>(x, y)\<close> and is now over the cell \<open>(fx, fy)\<close>,
  with \<open>n\<close> touches. The mouse-enter event is sent to the cell entered.
\<close>

datatype event =
    ColorInput string
  | SwatchClick nat
  | CellClick nat nat bool
  | CellMouseDown
  | CellMouseEnter nat nat bool
  | CellTouchStart nat nat nat
  | CellTouchEnd
  | CellTouchMove nat nat nat nat nat
  | GridMouseUp
  | GridMouseLeave
  | ClearButton
  | WindowResize nat
  | Render

fun step :: "Session \<Rightarrow> event \<Rightarrow> Session" where
  "step t (ColorInput c) = render (queue (handleColorChange c) t)"
| "step t (SwatchClick i) = render (queue (swatchClick i (rendered t)) t)"
| "step t (CellClick x y shiftKey) =
     render (queue (handlePixelClick x y shiftKey (rendered t)) t)"
| "step t CellMouseDown = render (queue handleMouseDown t)"
| "step t (CellMouseEnter x y shiftKey) = queue (handlePixelMouseEnter x y (rendered t)) t"
| "step t (CellTouchStart x y touches) =
     render (queue (handleTouchClick x y touches (rendered t)) (queue handleMouseDown t))"
| "step t CellTouchEnd = render (queue handleMouseUp t)"
| "step t (CellTouchMove x y fx fy touches) =
     queue (handleTouchMove touches x y (rendered t)) t"
| "step t GridMouseUp = render (queue handleMouseUp t)"
| "step t GridMouseLeave = queue handleMouseUp t"
| "step t ClearButton = render (queue clearCanvas t)"
| "step t (WindowResize innerWidth) = queue (checkMobile innerWidth) t"
| "step t Render = render t"

definition run :: "Session \<Rightarrow> event list \<Rightarrow> Session" where
  "run t es = foldl step t es"

subsection \<open>Exporters\<close>

text \<open>
  Both exporters are handlers of a render and read \<open>gridSize\<close> and \<open>pixels\<close> of that render.

  \<open>downloadAsSVG\<close> builds the document in \<open>svgContent\<close>: the opening tag, one \<open>rect\<close>
  element for each entry that \<open>pixels.forEach\<close> visits, the closing tag. The function
  below is the string handed to the \<open>Blob\<close>.
\<close>

definition svgRect :: "string \<times> string \<Rightarrow> string" where
  \<open>svgRect entry =
     (case entry of (key, color) \<Rightarrow>
        (case decodeKey key of (x, y) \<Rightarrow>
           ''<rect x="'' @ String_num (times10 x) @ ''" y="'' @ String_num (times10 y)
             @ ''" width="10" height="10" fill="'' @ color @ ''"/>''))\<close>

definition svgOpen :: "GridSize \<Rightarrow> string" where
  \<open>svgOpen g =
     (let svgWidth = width g * 10;
          svgHeight = height g * 10
      in ''<svg width="'' @ String_nat svgWidth @ ''" height="'' @ String_nat svgHeight
           @ ''" xmlns="http://www.w3.org/2000/svg">'')\<close>

definition downloadAsSVG :: "AppState \<Rightarrow> string" where
  "downloadAsSVG s =
     foldl (\<lambda>svgContent entry. svgContent @ svgRect entry) (svgOpen (gridSize s)) (pixels s)
       @ ''</svg>''"

text \<open>
  \<open>downloadAsPNG\<close> draws on the hidden canvas. The model records the size given to the
  canvas and the calls made on its 2-D context, in order; encoding the canvas is the
  browser's work. The function returns early, drawing nothing, when the canvas element or
  its context is missing.
\<close>

datatype canvas_call =
    ClearRect nat nat nat nat
  | FillStyle string
  | FillRect "nat option" "nat option" nat nat

record canvas =
  cv_width :: nat
  cv_height :: nat
  cv_calls :: "canvas_call list"

definition pngCell :: "string \<times> string \<Rightarrow> canvas_call list" where
  "pngCell entry =
     (case entry of (key, color) \<Rightarrow>
        (case decodeKey key of (x, y) \<Rightarrow>
           [FillStyle color, FillRect (times10 x) (times10 y) 10 10]))"

definition downloadAsPNG :: "bool \<Rightarrow> bool \<Rightarrow> AppState \<Rightarrow> canvas option" where
  "downloadAsPNG hasCanvas hasContext s =
     (if \<not> hasCanvas then None
      else if \<not> hasContext then None
      else
        (let w = width (gridSize s) * 10;
             h = height (gridSize s) * 10;
             cleared = [ClearRect 0 0 w h]
         in Some \<lparr> cv_width = w, cv_height = h,
                   cv_calls = foldl (\<lambda>calls entry. calls @ pngCell entry) cleared (pixels s) \<rparr>))"

subsection \<open>Sequences of uses and of grid operations\<close>

text \<open>The recent colours after the updater has run for each colour of \<open>cs\<close> in turn.\<close>

definition useAll :: "string list \<Rightarrow> string list \<Rightarrow> string list" where
  "useAll h cs = foldl (\<lambda>prev color. recentUpdate color prev) h cs"







text \<open>
  A fresh session on a grid of the size given. The application itself only ever sets the
  sizes 16 by 16 and 32 by 32 (\<open>checkMobile\<close>); the handlers and exporters work for any size.
\<close>

definition sessionOn :: "nat \<Rightarrow> nat \<Rightarrow> AppState" where
  "sessionOn w h = initialState\<lparr> gridSize := \<lparr> width = w, height = h \<rparr> \<rparr>"


text \<open>
  What the handlers keep true of the selected colour and the recent colours, and of the
  keys of the map, in the state of the render and in React's state.
\<close>

definition historyInv :: "Session \<Rightarrow> bool" where
  "historyInv t \<longleftrightarrow>
     selectedColor (rendered t) \<in> set (recentColors (rendered t))
     \<and> selectedColor (pending t) \<in> set (recentColors (pending t))
     \<and> set (recentColors (rendered t)) \<subseteq> set (recentColors (pending t))
     \<and> length (recentColors (pending t)) \<le> 10"

definition keysInv :: "Session \<Rightarrow> bool" where
  "keysInv t \<longleftrightarrow>
     distinct (map fst (pixels (rendered t))) \<and> distinct (map fst (pixels (pending t)))"

section \<open>Properties of the building blocks\<close>

subsection \<open>Keys\<close>

lemma digit_char_numeral:
  "digit_char 0 = CHR ''0''" "digit_char 1 = CHR ''1''" "digit_char 2 = CHR ''2''"
  "digit_char 3 = CHR ''3''" "digit_char 4 = CHR ''4''" "digit_char 5 = CHR ''5''"
  "digit_char 6 = CHR ''6''" "digit_char 7 = CHR ''7''" "digit_char 8 = CHR ''8''"
  "digit_char 9 = CHR ''9''" "digit_char (Suc 0) = CHR ''1''"
  by (simp_all add: digit_char_def)

lemma digit_char_props:
  assumes "d < 10"
  shows "is_digit (digit_char d) \<and> digit_val (digit_char d) = d"
proof -
  from assms have "d = 0 \<or> d = 1 \<or> d = 2 \<or> d = 3 \<or> d = 4
      \<or> d = 5 \<or> d = 6 \<or> d = 7 \<or> d = 8 \<or> d = 9"
    by arith
  then show ?thesis
    by (auto simp: digit_char_numeral is_digit_def digit_val_def)
qed

lemma dash_not_digit: "\<not> is_digit (CHR ''-'')"
  by (simp add: is_digit_def)

lemma String_nat_digits: "list_all is_digit (String_nat n)"
  by (induction n rule: String_nat.induct) (subst String_nat.simps, simp add: digit_char_props)

lemma String_nat_no_dash: "CHR ''-'' \<notin> set (String_nat n)"
  using String_nat_digits [of n] dash_not_digit by (auto simp: list_all_iff)

lemma String_nat_value: "foldl (\<lambda>a c. 10 * a + digit_val c) 0 (String_nat n) = n"
  by (induction n rule: String_nat.induct) (subst String_nat.simps, simp add: digit_char_props)

lemma Number_js_String_nat: "Number_js (String_nat n) = Some n"
  by (simp add: Number_js_def String_nat_digits String_nat_value)

lemma split_js_none: "sep \<notin> set s \<Longrightarrow> split_js sep s = [s]"
  by (induction s) auto

lemma split_js_first: "sep \<notin> set a \<Longrightarrow> split_js sep (a @ sep # b) = a # split_js sep b"
  by (induction a) auto

lemma decodeKey_getPixelKey: "decodeKey (getPixelKey x y) = (Some x, Some y)"
  by (simp add: decodeKey_def getPixelKey_def split_js_first split_js_none String_nat_no_dash
      Number_js_String_nat element_def)

lemma getPixelKey_inject: "getPixelKey x y = getPixelKey x' y' \<longleftrightarrow> x = x' \<and> y = y'"
  by (metis decodeKey_getPixelKey option.inject prod.inject)

subsection \<open>The map operations\<close>


lemma map_of_Map_delete: "map_of (Map_delete m k) = (map_of m)(k := None)"
  by (induction m) (auto simp: fun_eq_iff Map_delete_def)



lemma map_fst_Map_set:
  "map fst (Map_set m k v) = (if map_of m k = None then map fst m @ [k] else map fst m)"
  by (induction m) auto

lemma distinct_Map_set: "distinct (map fst m) \<Longrightarrow> distinct (map fst (Map_set m k v))"
  by (simp add: map_fst_Map_set map_of_eq_None_iff)

lemma distinct_Map_delete: "distinct (map fst m) \<Longrightarrow> distinct (map fst (Map_delete m k))"
  by (simp add: Map_delete_def distinct_map_filter)

subsection \<open>The recent colours\<close>

lemma recentUpdate_length: "length (recentUpdate c prev) \<le> 10"
  by (simp add: recentUpdate_def)

lemma recentUpdate_distinct: "distinct prev \<Longrightarrow> distinct (recentUpdate c prev)"
  by (auto simp: recentUpdate_def dest: in_set_takeD)

lemma recentUpdate_Cons: "recentUpdate c prev = c # take 9 (filter (\<lambda>x. x \<noteq> c) prev)"
  by (simp add: recentUpdate_def)

lemma recentUpdate_set:
  assumes "c \<in> set xs" and "length xs \<le> 10"
  shows "set (recentUpdate c xs) = set xs"
proof -
  have "length (filter (\<lambda>x. x \<noteq> c) xs) < length xs"
    using assms(1) by (simp add: length_filter_less)
  then have "take 9 (filter (\<lambda>x. x \<noteq> c) xs) = filter (\<lambda>x. x \<noteq> c) xs"
    using assms(2) by simp
  then show ?thesis
    using assms(1) by (auto simp: recentUpdate_Cons)
qed

subsection \<open>Runs and the loops of the exporters\<close>

lemma run_Nil: "run t [] = t"
  by (simp add: run_def)

lemma run_Cons: "run t (e # es) = run (step t e) es"
  by (simp add: run_def)


lemma run_invariant:
  assumes "P t" and "\<And>u e. P u \<Longrightarrow> P (step u e)"
  shows "P (run t es)"
  using assms(1)
proof (induction es arbitrary: t)
  case Nil
  then show ?case by (simp add: run_Nil)
next
  case (Cons e es)
  then show ?case by (simp add: run_Cons assms(2))
qed

lemma foldl_append_concat: "foldl (\<lambda>acc e. acc @ f e) a xs = a @ concat (map f xs)"
  by (induction xs arbitrary: a) auto

lemma downloadAsSVG_concat:
  "downloadAsSVG s = svgOpen (gridSize s) @ concat (map svgRect (pixels s)) @ ''</svg>''"
  by (simp add: downloadAsSVG_def foldl_append_concat)

lemma downloadAsPNG_concat:
  "downloadAsPNG True True s =
     Some \<lparr> cv_width = width (gridSize s) * 10, cv_height = height (gridSize s) * 10,
            cv_calls = ClearRect 0 0 (width (gridSize s) * 10) (height (gridSize s) * 10)
                         # concat (map pngCell (pixels s)) \<rparr>"
  by (simp add: downloadAsPNG_def Let_def foldl_append_concat)

subsection \<open>Entries of cells in the exports\<close>

lemma svgRect_getPixelKey:
  \<open>svgRect (getPixelKey x y, color)
     = ''<rect x="'' @ String_nat (x * 10) @ ''" y="'' @ String_nat (y * 10)
         @ ''" width="10" height="10" fill="'' @ color @ ''"/>''\<close>
  by (simp add: decodeKey_getPixelKey svgRect_def times10_def String_num_def)

lemma pngCell_getPixelKey:
  "pngCell (getPixelKey x y, color)
     = [FillStyle color, FillRect (Some (x * 10)) (Some (y * 10)) 10 10]"
  by (simp add: decodeKey_getPixelKey pngCell_def times10_def)

lemma String_nat_small:
  "String_nat 0 = ''0''" "String_nat 10 = ''10''" "String_nat 40 = ''40''"
  "String_nat 120 = ''120''" "String_nat 160 = ''160''" "String_nat 3050 = ''3050''"
  by (simp_all add: String_nat.simps digit_char_numeral)

lemma Map_set_member: "(k, v) \<in> set (Map_set m k v)"
  by (induction m) auto

subsection \<open>Invariants of the handlers\<close>

lemmas handler_defs = handleColorChange_def addToRecentColors_def handlePixelClick_def
  handleTouchClick_def handleMouseDown_def handleMouseUp_def handlePixelMouseEnter_def
  handleTouchMove_def clearCanvas_def swatchClick_def checkMobile_def
  render_def queue_def settled_def initialSession_def Let_def

lemma keysInv_step: "keysInv t \<Longrightarrow> keysInv (step t e)"
  by (cases e) (auto simp: keysInv_def handler_defs distinct_Map_set distinct_Map_delete)

lemma keysInv_run: "keysInv (run initialSession es)"
  by (rule run_invariant [where P = keysInv])
     (simp add: keysInv_def handler_defs initialState_def, rule keysInv_step)

lemma historyInv_step:
  assumes "historyInv t"
  shows "historyInv (step t e)"
proof -
  have m: "selectedColor (rendered t) \<in> set (recentColors (pending t))"
    and l: "length (recentColors (pending t)) \<le> 10"
    using assms by (auto simp: historyInv_def)
  have eq: "set (recentUpdate (selectedColor (rendered t)) (recentColors (pending t)))
              = set (recentColors (pending t))"
    by (rule recentUpdate_set [OF m l])
  show ?thesis
  proof (cases e)
    case (ColorInput c)
    then show ?thesis
      using assms by (auto simp: historyInv_def handler_defs recentUpdate_Cons)
  next
    case (SwatchClick i)
    then show ?thesis
      using assms by (auto simp: historyInv_def handler_defs)
  qed (use assms in \<open>auto simp: historyInv_def handler_defs eq recentUpdate_length\<close>)
qed

lemma historyInv_run: "historyInv (run initialSession es)"
  by (rule run_invariant [where P = historyInv])
     (simp add: historyInv_def handler_defs initialState_def, rule historyInv_step)

lemma same_keys_same_map:
  "distinct (map fst xs) \<Longrightarrow> map fst xs = map fst ys \<Longrightarrow> map_of xs = map_of ys \<Longrightarrow> xs = ys"
  by (metis (mono_tags, lifting) eq_key_imp_eq_value list.inj_map_strong
    map_of_inject_set surjective_pairing)

lemma same_map_same_entries:
  assumes "distinct (map fst xs)" "distinct (map fst ys)" "map_of xs = map_of ys"
  shows "mset xs = mset ys"
proof -
  have "set xs = set ys"
    using assms by (simp add: map_of_inject_set)
  moreover have "distinct xs" "distinct ys"
    using assms(1,2) by (simp_all add: distinct_map)
  ultimately show ?thesis
    by (simp add: set_eq_iff_mset_eq_distinct)
qed

subsection \<open>Paint and erase against the mapping of the specification\<close>




subsection \<open>Two sessions that paint the same cells in different orders\<close>

lemma two_orders_pixels:
  "pixels (rendered (run initialSession [CellClick 0 0 False, CellClick 1 1 False]))
     = [(getPixelKey 0 0, ''#3b82f6''), (getPixelKey 1 1, ''#3b82f6'')]"
  "pixels (rendered (run initialSession [CellClick 1 1 False, CellClick 0 0 False]))
     = [(getPixelKey 1 1, ''#3b82f6''), (getPixelKey 0 0, ''#3b82f6'')]"
  by (simp_all add: run_def handler_defs initialState_def getPixelKey_inject del: One_nat_def)

lemma two_orders_gridSize:
  "gridSize (rendered (run initialSession [CellClick 0 0 False, CellClick 1 1 False]))
     = \<lparr> width = 16, height = 16 \<rparr>"
  "gridSize (rendered (run initialSession [CellClick 1 1 False, CellClick 0 0 False]))
     = \<lparr> width = 16, height = 16 \<rparr>"
  by (simp_all add: run_def handler_defs initialState_def)

lemma two_orders_same_gridSize:
  "gridSize (rendered (run initialSession [CellClick 0 0 False, CellClick 1 1 False]))
     = gridSize (rendered (run initialSession [CellClick 1 1 False, CellClick 0 0 False]))"
  unfolding two_orders_gridSize by simp

lemma two_orders_map:
  "map_of (pixels (rendered (run initialSession [CellClick 0 0 False, CellClick 1 1 False])))
     = map_of (pixels (rendered (run initialSession [CellClick 1 1 False, CellClick 0 0 False])))"
  unfolding two_orders_pixels by (auto simp: fun_eq_iff)

lemma two_orders_settled:
  "pending (run initialSession [CellClick 0 0 False, CellClick 1 1 False])
     = rendered (run initialSession [CellClick 0 0 False, CellClick 1 1 False])"
  by (simp add: run_def handler_defs)


section \<open>The claims\<close>

subsection \<open>The vector export and the order of painting\<close>

text \<open>
  Claim C1, as stated, fails: \<open>downloadAsSVG\<close> visits the entries with \<open>pixels.forEach\<close>,
  that is in the order in which the keys were inserted. Painting \<open>(0,0)\<close> then \<open>(1,1)\<close>, and
  painting \<open>(1,1)\<close> then \<open>(0,0)\<close>, give the same mapping on the same grid and two different
  documents.
\<close>

theorem downloadAsSVG_order_counterexample:
  \<open>gridSize (rendered (run initialSession [CellClick 0 0 False, CellClick 1 1 False]))
     = gridSize (rendered (run initialSession [CellClick 1 1 False, CellClick 0 0 False]))
   \<and> map_of (pixels (rendered (run initialSession [CellClick 0 0 False, CellClick 1 1 False])))
     = map_of (pixels (rendered (run initialSession [CellClick 1 1 False, CellClick 0 0 False])))
   \<and> downloadAsSVG (rendered (run initialSession [CellClick 0 0 False, CellClick 1 1 False]))
     = ''<svg width="160" height="160" xmlns="http://www.w3.org/2000/svg"><rect x="0" y="0" width="10" height="10" fill="#3b82f6"/><rect x="10" y="10" width="10" height="10" fill="#3b82f6"/></svg>''
   \<and> downloadAsSVG (rendered (run initialSession [CellClick 1 1 False, CellClick 0 0 False]))
     = ''<svg width="160" height="160" xmlns="http://www.w3.org/2000/svg"><rect x="10" y="10" width="10" height="10" fill="#3b82f6"/><rect x="0" y="0" width="10" height="10" fill="#3b82f6"/></svg>''
   \<and> downloadAsSVG (rendered (run initialSession [CellClick 0 0 False, CellClick 1 1 False]))
     \<noteq> downloadAsSVG (rendered (run initialSession [CellClick 1 1 False, CellClick 0 0 False]))\<close>
proof -
  have d: \<open>downloadAsSVG (rendered (run initialSession [CellClick 0 0 False, CellClick 1 1 False]))
     = ''<svg width="160" height="160" xmlns="http://www.w3.org/2000/svg"><rect x="0" y="0" width="10" height="10" fill="#3b82f6"/><rect x="10" y="10" width="10" height="10" fill="#3b82f6"/></svg>''\<close>
    \<open>downloadAsSVG (rendered (run initialSession [CellClick 1 1 False, CellClick 0 0 False]))
     = ''<svg width="160" height="160" xmlns="http://www.w3.org/2000/svg"><rect x="10" y="10" width="10" height="10" fill="#3b82f6"/><rect x="0" y="0" width="10" height="10" fill="#3b82f6"/></svg>''\<close>
    by (simp_all add: downloadAsSVG_concat two_orders_pixels two_orders_gridSize svgOpen_def
        svgRect_getPixelKey String_nat_small del: One_nat_def)
  have "downloadAsSVG (rendered (run initialSession [CellClick 0 0 False, CellClick 1 1 False]))
     \<noteq> downloadAsSVG (rendered (run initialSession [CellClick 1 1 False, CellClick 0 0 False]))"
    unfolding d by simp
  then show ?thesis
    using two_orders_same_gridSize two_orders_map d by blast
qed

text \<open>
  Claim C1, amended. Take two sessions whose rendered grids have the same size and are
  equal as mappings. Each exported document is the opening tag for that size, the rectangle
  elements of the entries in the order in which their keys were inserted, and the closing
  tag; the two documents have the same rectangle elements, each as often, possibly in a
  different order; and they are identical when the keys stand in the same order.
\<close>

theorem downloadAsSVG_same_rectangles:
  "gridSize (rendered (run initialSession es1)) = gridSize (rendered (run initialSession es2)) \<Longrightarrow>
   map_of (pixels (rendered (run initialSession es1)))
     = map_of (pixels (rendered (run initialSession es2))) \<Longrightarrow>
   downloadAsSVG (rendered (run initialSession es1))
     = svgOpen (gridSize (rendered (run initialSession es1)))
         @ concat (map svgRect (pixels (rendered (run initialSession es1)))) @ ''</svg>''
   \<and> downloadAsSVG (rendered (run initialSession es2))
     = svgOpen (gridSize (rendered (run initialSession es1)))
         @ concat (map svgRect (pixels (rendered (run initialSession es2)))) @ ''</svg>''
   \<and> mset (map svgRect (pixels (rendered (run initialSession es1))))
     = mset (map svgRect (pixels (rendered (run initialSession es2))))
   \<and> (map fst (pixels (rendered (run initialSession es1)))
         = map fst (pixels (rendered (run initialSession es2)))
        \<longrightarrow> downloadAsSVG (rendered (run initialSession es1))
            = downloadAsSVG (rendered (run initialSession es2)))"
proof -
  assume g: "gridSize (rendered (run initialSession es1))
           = gridSize (rendered (run initialSession es2))"
    and m: "map_of (pixels (rendered (run initialSession es1)))
          = map_of (pixels (rendered (run initialSession es2)))"
  have k: "distinct (map fst (pixels (rendered (run initialSession es))))" for es
    using keysInv_run [of es] by (simp add: keysInv_def)
  have "mset (pixels (rendered (run initialSession es1)))
      = mset (pixels (rendered (run initialSession es2)))"
    using m by (simp add: same_map_same_entries k)
  then have "image_mset svgRect (mset (pixels (rendered (run initialSession es1))))
      = image_mset svgRect (mset (pixels (rendered (run initialSession es2))))"
    by simp
  moreover have "pixels (rendered (run initialSession es1))
      = pixels (rendered (run initialSession es2))"
    if "map fst (pixels (rendered (run initialSession es1)))
      = map fst (pixels (rendered (run initialSession es2)))"
    using that m by (simp add: same_keys_same_map k)
  ultimately show ?thesis
    using g by (auto simp: downloadAsSVG_concat)
qed

theorem downloadAsSVG_same_rectangles_witness:
  "gridSize (rendered (run initialSession [CellClick 0 0 False, CellClick 1 1 False]))
     = gridSize (rendered (run initialSession [CellClick 1 1 False, CellClick 0 0 False]))
   \<and> map_of (pixels (rendered (run initialSession [CellClick 0 0 False, CellClick 1 1 False])))
     = map_of (pixels (rendered (run initialSession [CellClick 1 1 False, CellClick 0 0 False])))
   \<and> mset (map svgRect
        (pixels (rendered (run initialSession [CellClick 0 0 False, CellClick 1 1 False]))))
     = mset (map svgRect
        (pixels (rendered (run initialSession [CellClick 1 1 False, CellClick 0 0 False]))))"
  using downloadAsSVG_same_rectangles [OF two_orders_same_gridSize two_orders_map]
    two_orders_same_gridSize two_orders_map
  by blast

subsection \<open>Selecting a colour\<close>

text \<open>
  Claim C2, as stated, fails for the recent-colour buttons: their handler calls
  \<open>setSelectedColor\<close> alone. After the colour \<open>#ff0000\<close> has been picked, a click on the
  second button selects the seed colour, and the list of recent colours is what it was:
  the updater has not run for the colour selected, and index 0 holds another colour.
\<close>

theorem swatchClick_counterexample:
  "selectedColor (pending (run initialSession [ColorInput ''#ff0000'', SwatchClick 1]))
       = ''#3b82f6''
   \<and> recentColors (pending (run initialSession [ColorInput ''#ff0000'', SwatchClick 1]))
       = [''#ff0000'', ''#3b82f6'']
   \<and> recentColors (pending (run initialSession [ColorInput ''#ff0000'', SwatchClick 1])) ! 0
       \<noteq> ''#3b82f6''
   \<and> recentColors (pending (run initialSession [ColorInput ''#ff0000'', SwatchClick 1]))
       \<noteq> recentUpdate ''#3b82f6''
           (recentColors (pending (run initialSession [ColorInput ''#ff0000''])))"
  by (simp add: run_def handler_defs recentUpdate_def initialState_def)

text \<open>
  Claim C2, amended. Choosing a colour \<open>c\<close> in the colour input sets the selected colour to
  \<open>c\<close> and runs the updater of \<open>addToRecentColors\<close> for \<open>c\<close>, so \<open>c\<close> is at index 0 of the
  recent colours. A click on the recent-colour button at index \<open>i\<close> sets the selected colour
  to the colour that the button shows and leaves the recent colours as they are. After
  every sequence of events from the initial session the selected colour is one of the
  recent colours, in React's state and in the state rendered.
\<close>

theorem select_color:
  "selectedColor (pending (step t (ColorInput c))) = c
   \<and> recentColors (pending (step t (ColorInput c))) = recentUpdate c (recentColors (pending t))
   \<and> recentColors (pending (step t (ColorInput c))) ! 0 = c
   \<and> rendered (step t (ColorInput c)) = pending (step t (ColorInput c))
   \<and> (i < length (recentColors (rendered t)) \<longrightarrow>
        selectedColor (pending (step t (SwatchClick i))) = recentColors (rendered t) ! i
        \<and> recentColors (pending (step t (SwatchClick i))) = recentColors (pending t))
   \<and> selectedColor (pending (run initialSession es))
        \<in> set (recentColors (pending (run initialSession es)))
   \<and> selectedColor (rendered (run initialSession es))
        \<in> set (recentColors (rendered (run initialSession es)))"
  using historyInv_run [of es]
  by (simp add: historyInv_def handler_defs recentUpdate_Cons)

theorem select_color_witness:
  "(1::nat) < length (recentColors (rendered (run initialSession [ColorInput ''#ff0000''])))
   \<and> selectedColor (pending (step (run initialSession [ColorInput ''#ff0000''])
        (ColorInput ''#00ff00''))) = ''#00ff00''
   \<and> recentColors (pending (step (run initialSession [ColorInput ''#ff0000''])
        (ColorInput ''#00ff00''))) = [''#00ff00'', ''#ff0000'', ''#3b82f6'']
   \<and> selectedColor (pending (step (run initialSession [ColorInput ''#ff0000''])
        (SwatchClick 1))) = ''#3b82f6''
   \<and> recentColors (pending (step (run initialSession [ColorInput ''#ff0000''])
        (SwatchClick 1))) = [''#ff0000'', ''#3b82f6'']"
proof -
  have r: "recentColors (rendered (run initialSession [ColorInput ''#ff0000'']))
             = [''#ff0000'', ''#3b82f6'']"
      "recentColors (pending (run initialSession [ColorInput ''#ff0000'']))
             = [''#ff0000'', ''#3b82f6'']"
    by (simp_all add: run_def handler_defs recentUpdate_def initialState_def)
  show ?thesis
    using select_color [of "run initialSession [ColorInput ''#ff0000'']" "''#00ff00''" 1 "[]"]
    by (simp add: r recentUpdate_def)
qed

subsection \<open>Select A, select A again, select B\<close>

text \<open>
  Claim C3, as stated, fails: the recent colours start with the seed \<open>#3b82f6\<close>, which
  stays in the list behind the colours selected.
\<close>

theorem select_A_A_B_counterexample:
  "''#ff0000'' \<noteq> ''#00ff00''
   \<and> recentColors (pending (run initialSession
         [ColorInput ''#ff0000'', ColorInput ''#ff0000'', ColorInput ''#00ff00'']))
       = [''#00ff00'', ''#ff0000'', ''#3b82f6'']
   \<and> recentColors (pending (run initialSession
         [ColorInput ''#ff0000'', ColorInput ''#ff0000'', ColorInput ''#00ff00'']))
       \<noteq> [''#00ff00'', ''#ff0000'']"
  by (simp add: run_def handler_defs recentUpdate_def initialState_def)

text \<open>
  Claim C3, amended. From the initial session, choosing \<open>A\<close>, \<open>A\<close> again and then \<open>B\<close> in the
  colour input, with \<open>A\<close> and \<open>B\<close> distinct, leaves the recent colours equal to \<open>[B, A]\<close>
  followed by the seed colour \<open>#3b82f6\<close>, unless the seed is \<open>A\<close> or \<open>B\<close>; then they are
  exactly \<open>[B, A]\<close>. The state rendered is React's state.
\<close>

theorem select_A_A_B:
  "A \<noteq> B \<Longrightarrow>
   recentColors (pending (run initialSession [ColorInput A, ColorInput A, ColorInput B]))
     = B # A # (if A = ''#3b82f6'' \<or> B = ''#3b82f6'' then [] else [''#3b82f6''])
   \<and> rendered (run initialSession [ColorInput A, ColorInput A, ColorInput B])
     = pending (run initialSession [ColorInput A, ColorInput A, ColorInput B])"
  by (auto simp add: run_def handler_defs recentUpdate_def initialState_def)

theorem select_A_A_B_witness:
  "''#3b82f6'' \<noteq> ''#00ff00''
   \<and> recentColors (pending (run initialSession
         [ColorInput ''#3b82f6'', ColorInput ''#3b82f6'', ColorInput ''#00ff00'']))
       = [''#00ff00'', ''#3b82f6'']"
  using select_A_A_B [of "''#3b82f6''" "''#00ff00''"] by simp

subsection \<open>The recent colours stay short, distinct and most recent first\<close>

lemma useAll_snoc: "useAll h (cs @ [c]) = recentUpdate c (useAll h cs)"
  by (simp add: useAll_def)

lemma useAll_inv:
  "distinct h \<Longrightarrow> length h \<le> 10 \<Longrightarrow> distinct (useAll h cs) \<and> length (useAll h cs) \<le> 10"
  by (induction cs rule: rev_induct)
     (simp_all add: useAll_snoc recentUpdate_distinct recentUpdate_length, simp add: useAll_def)

text \<open>
  Claim C4. Starting from the seeded list of recent colours, after the updater of
  \<open>addToRecentColors\<close> has run for any finite sequence of colours, the list has at most 10
  entries, they are pairwise distinct, and if the sequence is not empty its last colour is
  at index 0.
\<close>

theorem recentColors_invariant:
  "length (useAll (recentColors initialState) cs) \<le> 10
   \<and> distinct (useAll (recentColors initialState) cs)
   \<and> (cs \<noteq> [] \<longrightarrow> useAll (recentColors initialState) cs ! 0 = last cs)"
proof -
  have "cs \<noteq> [] \<longrightarrow> useAll (recentColors initialState) cs ! 0 = last cs"
    by (cases cs rule: rev_cases) (simp_all add: useAll_snoc recentUpdate_Cons)
  then show ?thesis
    using useAll_inv [of "recentColors initialState" cs] by (simp add: initialState_def)
qed

theorem recentColors_invariant_witness:
  "useAll (recentColors initialState) [''#000000'', ''#ffffff'', ''#000000'']
     = [''#000000'', ''#ffffff'', ''#3b82f6'']
   \<and> [''#000000'', ''#ffffff'', ''#000000''] \<noteq> ([] :: string list)
   \<and> length (useAll (recentColors initialState) [''#000000'', ''#ffffff'', ''#000000'']) \<le> 10
   \<and> distinct (useAll (recentColors initialState) [''#000000'', ''#ffffff'', ''#000000''])
   \<and> useAll (recentColors initialState) [''#000000'', ''#ffffff'', ''#000000''] ! 0 = ''#000000''"
  using recentColors_invariant [of "[''#000000'', ''#ffffff'', ''#000000'']"]
  by (simp add: useAll_def recentUpdate_def initialState_def)

subsection \<open>Dragging\<close>

lemma drag_ignores_modifier:
  "step t (CellMouseEnter x y True) = step t (CellMouseEnter x y False)
   \<and> step t (CellTouchMove x y fx fy touches) = step t (CellTouchMove x y fx fy 1)"
  by (simp add: queue_def handleTouchMove_def)

text \<open>
  Claim C5. While a paint gesture is in progress, every move into a cell paints the cell
  entered with the selected colour and removes no entry of the grid, whatever modifier is
  held; after a drag over \<open>(0,0)\<close>, \<open>(0,1)\<close>, \<open>(0,2)\<close> the cell \<open>(0,1)\<close> is painted and stays so.

  The handlers read no modifier on a move, but they do not paint every cell entered. With
  \<open>#000000\<close> selected and the button pressed, two mouse-enter events that are handled
  before React renders again leave only the second cell painted: each handler passes to
  \<open>setPixels\<close> a copy of the map of its render with its own cell added. With a render
  between the two events both cells are painted. On a touch screen the listener that
  runs on a move is the one of the cell where the contact began, so a finger that starts
  on \<open>(0,0)\<close> and moves over \<open>(0,1)\<close> and \<open>(0,2)\<close> paints \<open>(0,0)\<close> alone, with or without
  renders in between.
\<close>

theorem drag_loses_paint:
  "pixels (pending (run initialSession
      [ColorInput ''#000000'', CellMouseDown, CellMouseEnter 0 1 False,
       CellMouseEnter 0 2 False]))
     = [(getPixelKey 0 2, ''#000000'')]
   \<and> pixels (rendered (run initialSession
      [ColorInput ''#000000'', CellMouseDown, CellMouseEnter 0 1 False,
       CellMouseEnter 0 2 False, GridMouseUp]))
     = [(getPixelKey 0 2, ''#000000'')]
   \<and> pixels (rendered (run initialSession
      [ColorInput ''#000000'', CellMouseDown, CellMouseEnter 0 1 False, Render,
       CellMouseEnter 0 2 False, GridMouseUp]))
     = [(getPixelKey 0 1, ''#000000''), (getPixelKey 0 2, ''#000000'')]
   \<and> pixels (rendered (run initialSession
      [ColorInput ''#000000'', CellTouchStart 0 0 1, CellTouchMove 0 0 0 1 1,
       CellTouchMove 0 0 0 2 1, CellTouchEnd]))
     = [(getPixelKey 0 0, ''#000000'')]
   \<and> pixels (rendered (run initialSession
      [ColorInput ''#000000'', CellTouchStart 0 0 1, CellTouchMove 0 0 0 1 1, Render,
       CellTouchMove 0 0 0 2 1, Render, CellTouchEnd]))
     = [(getPixelKey 0 0, ''#000000'')]"
  by (simp add: run_def handler_defs initialState_def getPixelKey_inject del: One_nat_def)

subsection \<open>Erasing a cell\<close>

text \<open>
  Claim C6. A click on a cell with the shift key held, and a touch start on a cell with
  more than one touch, remove the entry of that cell's key from \<open>pixels\<close>, leave every
  other key with what it held in the map of the render, and leave the recent colours
  unchanged. No bound on the coordinates is needed.
\<close>

theorem erase_leaves_history:
  "Map_get (pixels (pending (step t (CellClick x y True)))) (getPixelKey x y) = None
   \<and> (\<forall>k. k \<noteq> getPixelKey x y \<longrightarrow>
         Map_get (pixels (pending (step t (CellClick x y True)))) k
           = Map_get (pixels (rendered t)) k)
   \<and> recentColors (pending (step t (CellClick x y True))) = recentColors (pending t)
   \<and> rendered (step t (CellClick x y True)) = pending (step t (CellClick x y True))
   \<and> (1 < touches \<longrightarrow>
        Map_get (pixels (pending (step t (CellTouchStart x y touches)))) (getPixelKey x y)
          = None
        \<and> (\<forall>k. k \<noteq> getPixelKey x y \<longrightarrow>
              Map_get (pixels (pending (step t (CellTouchStart x y touches)))) k
                = Map_get (pixels (rendered t)) k)
        \<and> recentColors (pending (step t (CellTouchStart x y touches)))
            = recentColors (pending t)
        \<and> rendered (step t (CellTouchStart x y touches))
            = pending (step t (CellTouchStart x y touches)))"
  by (simp add: handler_defs Map_get_def map_of_Map_delete)

theorem erase_leaves_history_witness:
  "(1::nat) < 2
   \<and> getPixelKey 1 1 \<noteq> getPixelKey 0 0
   \<and> Map_get (pixels (rendered (run initialSession [CellClick 0 0 False, CellClick 1 1 False])))
        (getPixelKey 0 0) = Some ''#3b82f6''
   \<and> Map_get (pixels (pending (step
        (run initialSession [CellClick 0 0 False, CellClick 1 1 False])
        (CellClick 0 0 True)))) (getPixelKey 0 0) = None
   \<and> Map_get (pixels (pending (step
        (run initialSession [CellClick 0 0 False, CellClick 1 1 False])
        (CellClick 0 0 True)))) (getPixelKey 1 1) = Some ''#3b82f6''
   \<and> Map_get (pixels (pending (step
        (run initialSession [CellClick 0 0 False, CellClick 1 1 False])
        (CellTouchStart 0 0 2)))) (getPixelKey 0 0) = None
   \<and> Map_get (pixels (pending (step
        (run initialSession [CellClick 0 0 False, CellClick 1 1 False])
        (CellTouchStart 0 0 2)))) (getPixelKey 1 1) = Some ''#3b82f6''
   \<and> recentColors (pending (step
        (run initialSession [CellClick 0 0 False, CellClick 1 1 False])
        (CellTouchStart 0 0 2))) = [''#3b82f6'']"
proof -
  have p: "Map_get (pixels (rendered (run initialSession
             [CellClick 0 0 False, CellClick 1 1 False]))) (getPixelKey 0 0) = Some ''#3b82f6''"
      "Map_get (pixels (rendered (run initialSession
             [CellClick 0 0 False, CellClick 1 1 False]))) (getPixelKey 1 1) = Some ''#3b82f6''"
    unfolding two_orders_pixels by (simp_all add: Map_get_def)
  have r: "recentColors (pending (run initialSession
             [CellClick 0 0 False, CellClick 1 1 False])) = [''#3b82f6'']"
    by (simp add: run_def handler_defs initialState_def recentUpdate_def)
  have k: "getPixelKey 1 1 \<noteq> getPixelKey 0 0" and t: "(1::nat) < 2"
    by (simp_all add: getPixelKey_inject)
  show ?thesis
    using erase_leaves_history
        [of "run initialSession [CellClick 0 0 False, CellClick 1 1 False]" 0 0 2] p r k t
    by metis
qed

subsection \<open>Paint, paint, erase on a grid of 4 by 4\<close>

lemma scenario_pixels:
  "pixels (pending (run (settled (sessionOn 4 4))
      [ColorInput ''#ff0000'', CellClick 0 0 False, ColorInput ''#00ff00'', CellClick 1 1 False,
       CellClick 0 0 True])) = [(getPixelKey 1 1, ''#00ff00'')]"
  by (simp add: run_def handler_defs sessionOn_def initialState_def getPixelKey_inject
      Map_delete_def del: One_nat_def)

lemma scenario_gridSize:
  "gridSize (pending (run (settled (sessionOn 4 4))
      [ColorInput ''#ff0000'', CellClick 0 0 False, ColorInput ''#00ff00'', CellClick 1 1 False,
       CellClick 0 0 True])) = \<lparr> width = 4, height = 4 \<rparr>"
  by (simp add: run_def handler_defs sessionOn_def initialState_def)

lemma scenario_settled:
  "rendered (run (settled (sessionOn 4 4))
      [ColorInput ''#ff0000'', CellClick 0 0 False, ColorInput ''#00ff00'', CellClick 1 1 False,
       CellClick 0 0 True])
   = pending (run (settled (sessionOn 4 4))
      [ColorInput ''#ff0000'', CellClick 0 0 False, ColorInput ''#00ff00'', CellClick 1 1 False,
       CellClick 0 0 True])"
  by (simp add: run_def handler_defs)

lemma getPixelKey_1_1: "getPixelKey 1 1 = ''1-1''"
  by (simp add: getPixelKey_def String_nat.simps digit_char_numeral)

text \<open>
  Claim C7. On an empty grid of 4 by 4, painting \<open>(0,0)\<close> with \<open>#ff0000\<close>, painting \<open>(1,1)\<close>
  with \<open>#00ff00\<close> and erasing \<open>(0,0)\<close> leaves \<open>pixels\<close> with the single entry of the key of
  \<open>(1,1)\<close> and the colour \<open>#00ff00\<close>; the vector export is then the document with the
  declared size 40 by 40 and exactly one rectangle, at \<open>(10,10)\<close>, of size 10 by 10, filled
  with \<open>#00ff00\<close>.
\<close>

theorem scenario_4x4:
  \<open>pixels (pending (run (settled (sessionOn 4 4))
      [ColorInput ''#ff0000'', CellClick 0 0 False, ColorInput ''#00ff00'', CellClick 1 1 False,
       CellClick 0 0 True])) = [(''1-1'', ''#00ff00'')]
   \<and> getPixelKey 1 1 = ''1-1''
   \<and> rendered (run (settled (sessionOn 4 4))
      [ColorInput ''#ff0000'', CellClick 0 0 False, ColorInput ''#00ff00'', CellClick 1 1 False,
       CellClick 0 0 True])
     = pending (run (settled (sessionOn 4 4))
      [ColorInput ''#ff0000'', CellClick 0 0 False, ColorInput ''#00ff00'', CellClick 1 1 False,
       CellClick 0 0 True])
   \<and> downloadAsSVG (rendered (run (settled (sessionOn 4 4))
      [ColorInput ''#ff0000'', CellClick 0 0 False, ColorInput ''#00ff00'', CellClick 1 1 False,
       CellClick 0 0 True]))
     = ''<svg width="40" height="40" xmlns="http://www.w3.org/2000/svg"><rect x="10" y="10" width="10" height="10" fill="#00ff00"/></svg>''\<close>
proof -
  have d: \<open>downloadAsSVG (rendered (run (settled (sessionOn 4 4))
      [ColorInput ''#ff0000'', CellClick 0 0 False, ColorInput ''#00ff00'', CellClick 1 1 False,
       CellClick 0 0 True]))
     = ''<svg width="40" height="40" xmlns="http://www.w3.org/2000/svg"><rect x="10" y="10" width="10" height="10" fill="#00ff00"/></svg>''\<close>
    unfolding scenario_settled
    by (simp add: downloadAsSVG_concat scenario_pixels scenario_gridSize svgRect_getPixelKey
        svgOpen_def String_nat_small del: One_nat_def)
  show ?thesis
    using scenario_pixels getPixelKey_1_1 scenario_settled d by (simp del: One_nat_def)
qed

theorem scenario_4x4_witness:
  "Map_get (pixels (pending (run (settled (sessionOn 4 4))
      [ColorInput ''#ff0000'', CellClick 0 0 False, ColorInput ''#00ff00'', CellClick 1 1 False,
       CellClick 0 0 True]))) (getPixelKey 1 1) = Some ''#00ff00''
   \<and> length (pixels (pending (run (settled (sessionOn 4 4))
      [ColorInput ''#ff0000'', CellClick 0 0 False, ColorInput ''#00ff00'', CellClick 1 1 False,
       CellClick 0 0 True]))) = 1"
  using scenario_4x4 by (simp add: Map_get_def del: One_nat_def)

subsection \<open>Paint and erase are a fold over a coordinate-keyed mapping\<close>



subsection \<open>Clearing\<close>

text \<open>
  Claim C9. The clear button empties \<open>pixels\<close> and leaves the grid size as it is, and React
  renders. The vector export of the cleared state is the opening tag with the declared
  size \<open>(width * 10, height * 10)\<close> followed at once by the closing tag, with no rectangle.
  The raster export of the cleared state, when the canvas and its context exist, sets the
  canvas to that size and only clears it, filling nothing; when either is missing it
  produces no image.
\<close>

theorem clear_then_export:
  \<open>pixels (pending (step t ClearButton)) = []
   \<and> gridSize (pending (step t ClearButton)) = gridSize (pending t)
   \<and> rendered (step t ClearButton) = pending (step t ClearButton)
   \<and> downloadAsSVG (rendered (step t ClearButton))
       = ''<svg width="'' @ String_nat (width (gridSize (pending t)) * 10)
          @ ''" height="'' @ String_nat (height (gridSize (pending t)) * 10)
          @ ''" xmlns="http://www.w3.org/2000/svg"></svg>''
   \<and> downloadAsPNG hasCanvas hasContext (rendered (step t ClearButton))
       = (if hasCanvas \<and> hasContext
          then Some \<lparr> cv_width = width (gridSize (pending t)) * 10,
                      cv_height = height (gridSize (pending t)) * 10,
                      cv_calls = [ClearRect 0 0 (width (gridSize (pending t)) * 10)
                                     (height (gridSize (pending t)) * 10)] \<rparr>
          else None)\<close>
  by (simp add: handler_defs downloadAsSVG_def svgOpen_def downloadAsPNG_def)

theorem clear_then_export_witness:
  \<open>pixels (pending (run initialSession [CellClick 0 0 False, CellClick 1 1 False])) \<noteq> []
   \<and> pixels (pending (step (run initialSession [CellClick 0 0 False, CellClick 1 1 False])
        ClearButton)) = []
   \<and> downloadAsSVG (rendered (step
        (run initialSession [CellClick 0 0 False, CellClick 1 1 False]) ClearButton))
       = ''<svg width="160" height="160" xmlns="http://www.w3.org/2000/svg"></svg>''
   \<and> downloadAsPNG True True (rendered (step
        (run initialSession [CellClick 0 0 False, CellClick 1 1 False]) ClearButton))
       = Some \<lparr> cv_width = 160, cv_height = 160, cv_calls = [ClearRect 0 0 160 160] \<rparr>\<close>
proof -
  have g: "gridSize (pending (run initialSession [CellClick 0 0 False, CellClick 1 1 False]))
         = \<lparr> width = 16, height = 16 \<rparr>"
    unfolding two_orders_settled two_orders_gridSize by simp
  have p: "pixels (pending (run initialSession [CellClick 0 0 False, CellClick 1 1 False]))
         \<noteq> []"
    unfolding two_orders_settled two_orders_pixels by simp
  note c = clear_then_export
      [of "run initialSession [CellClick 0 0 False, CellClick 1 1 False]" True True,
       unfolded g]
  show ?thesis
    using c [THEN conjunct1] c [THEN conjunct2, THEN conjunct2, THEN conjunct2] p
    by (simp add: String_nat_small del: One_nat_def step.simps)
qed

subsection \<open>Keys decode to the coordinates they were made from\<close>

lemma export_entry_svg:
  assumes "(k, c) \<in> set (pixels s)"
  shows "\<exists>before after. downloadAsSVG s = before @ svgRect (k, c) @ after"
proof -
  from assms obtain xs ys where "pixels s = xs @ (k, c) # ys"
    by (auto dest: split_list)
  then have "downloadAsSVG s
      = (svgOpen (gridSize s) @ concat (map svgRect xs)) @ svgRect (k, c)
          @ (concat (map svgRect ys) @ ''</svg>'')"
    by (simp add: downloadAsSVG_concat)
  then show ?thesis by blast
qed

lemma export_entry_png:
  assumes "(k, c) \<in> set (pixels s)"
  shows "\<exists>before after. downloadAsPNG True True s
      = Some \<lparr> cv_width = width (gridSize s) * 10, cv_height = height (gridSize s) * 10,
               cv_calls = before @ pngCell (k, c) @ after \<rparr>"
proof -
  from assms obtain xs ys where "pixels s = xs @ (k, c) # ys"
    by (auto dest: split_list)
  then have "downloadAsPNG True True s
      = Some \<lparr> cv_width = width (gridSize s) * 10, cv_height = height (gridSize s) * 10,
               cv_calls = (ClearRect 0 0 (width (gridSize s) * 10) (height (gridSize s) * 10)
                             # concat (map pngCell xs)) @ pngCell (k, c)
                          @ concat (map pngCell ys) \<rparr>"
    by (simp add: downloadAsPNG_concat)
  then show ?thesis by blast
qed

lemma export_cells:
  assumes "pixels s = map (\<lambda>((cx, cy), c). (getPixelKey cx cy, c)) cells"
  shows \<open>map (\<lambda>(key, c). decodeKey key) (pixels s)
           = map (\<lambda>((cx, cy), c). (Some cx, Some cy)) cells\<close>
    and \<open>downloadAsSVG s
           = svgOpen (gridSize s)
             @ concat (map (\<lambda>((cx, cy), c).
                 ''<rect x="'' @ String_nat (cx * 10) @ ''" y="'' @ String_nat (cy * 10)
                   @ ''" width="10" height="10" fill="'' @ c @ ''"/>'') cells)
             @ ''</svg>''\<close>
    and \<open>downloadAsPNG True True s
           = Some \<lparr> cv_width = width (gridSize s) * 10, cv_height = height (gridSize s) * 10,
                    cv_calls = ClearRect 0 0 (width (gridSize s) * 10) (height (gridSize s) * 10)
                      # concat (map (\<lambda>((cx, cy), c).
                          [FillStyle c, FillRect (Some (cx * 10)) (Some (cy * 10)) 10 10])
                          cells) \<rparr>\<close>
  by (simp_all add: assms downloadAsSVG_concat downloadAsPNG_concat o_def case_prod_unfold
      decodeKey_getPixelKey svgRect_getPixelKey pngCell_getPixelKey)

text \<open>
  Claim C10. For natural coordinates \<open>x\<close> and \<open>y\<close>, splitting the key of \<open>getPixelKey\<close> at
  the dash and reading both parts as numbers gives \<open>x\<close> and \<open>y\<close> back. Hence both exporters
  place the square of each painted cell at \<open>(x * 10, y * 10)\<close>: a plain click on the cell
  \<open>(x, y)\<close> puts the entry of its key into \<open>pixels\<close>; for every entry of a cell's key in
  \<open>pixels\<close> the vector document contains the rectangle at \<open>(x * 10, y * 10)\<close> of side 10
  with the entry's colour, and the raster export sets the fill style to that colour and
  fills the square at \<open>(x * 10, y * 10)\<close> of side 10; and when \<open>pixels\<close> holds the entries of
  a list of cells, the vector document is the opening tag, exactly these rectangles in
  that order and the closing tag, and the raster export is the clearing of the canvas
  followed by exactly these fills in that order. The coordinates are taken in the range
  where JavaScript numbers are the naturals themselves.
\<close>

theorem getPixelKey_roundtrip:
  \<open>(x \<le> MAX_SAFE_INTEGER \<and> y \<le> MAX_SAFE_INTEGER \<longrightarrow>
      decodeKey (getPixelKey x y) = (Some x, Some y))
   \<and> (x \<le> MAX_SAFE_INTEGER \<and> y \<le> MAX_SAFE_INTEGER \<longrightarrow>
      (getPixelKey x y, selectedColor r) \<in> set (pixels (handlePixelClick x y False r p)))
   \<and> (x * 10 \<le> MAX_SAFE_INTEGER \<and> y * 10 \<le> MAX_SAFE_INTEGER
        \<and> (getPixelKey x y, color) \<in> set (pixels s) \<longrightarrow>
      (\<exists>before after. downloadAsSVG s
          = before
            @ ''<rect x="'' @ String_nat (x * 10) @ ''" y="'' @ String_nat (y * 10)
              @ ''" width="10" height="10" fill="'' @ color @ ''"/>''
            @ after)
      \<and> (\<exists>before after. downloadAsPNG True True s
          = Some \<lparr> cv_width = width (gridSize s) * 10, cv_height = height (gridSize s) * 10,
                   cv_calls = before
                     @ [FillStyle color, FillRect (Some (x * 10)) (Some (y * 10)) 10 10]
                     @ after \<rparr>))
   \<and> ((\<forall>((cx, cy), c) \<in> set cells.
          cx * 10 \<le> MAX_SAFE_INTEGER \<and> cy * 10 \<le> MAX_SAFE_INTEGER)
        \<and> pixels s = map (\<lambda>((cx, cy), c). (getPixelKey cx cy, c)) cells \<longrightarrow>
      map (\<lambda>(key, c). decodeKey key) (pixels s)
        = map (\<lambda>((cx, cy), c). (Some cx, Some cy)) cells
      \<and> downloadAsSVG s
        = svgOpen (gridSize s)
          @ concat (map (\<lambda>((cx, cy), c).
              ''<rect x="'' @ String_nat (cx * 10) @ ''" y="'' @ String_nat (cy * 10)
                @ ''" width="10" height="10" fill="'' @ c @ ''"/>'') cells)
          @ ''</svg>''
      \<and> downloadAsPNG True True s
        = Some \<lparr> cv_width = width (gridSize s) * 10, cv_height = height (gridSize s) * 10,
                 cv_calls = ClearRect 0 0 (width (gridSize s) * 10) (height (gridSize s) * 10)
                   # concat (map (\<lambda>((cx, cy), c).
                       [FillStyle c, FillRect (Some (cx * 10)) (Some (cy * 10)) 10 10])
                       cells) \<rparr>)\<close>
proof -
  have click: "(getPixelKey x y, selectedColor r) \<in> set (pixels (handlePixelClick x y False r p))"
    by (simp add: handlePixelClick_def Let_def Map_set_member)
  have entry: \<open>(\<exists>before after. downloadAsSVG s
          = before
            @ ''<rect x="'' @ String_nat (x * 10) @ ''" y="'' @ String_nat (y * 10)
              @ ''" width="10" height="10" fill="'' @ color @ ''"/>''
            @ after)
      \<and> (\<exists>before after. downloadAsPNG True True s
          = Some \<lparr> cv_width = width (gridSize s) * 10, cv_height = height (gridSize s) * 10,
                   cv_calls = before
                     @ [FillStyle color, FillRect (Some (x * 10)) (Some (y * 10)) 10 10]
                     @ after \<rparr>)\<close>
    if "(getPixelKey x y, color) \<in> set (pixels s)"
    using export_entry_svg [OF that] export_entry_png [OF that]
    unfolding svgRect_getPixelKey pngCell_getPixelKey append_assoc by blast
  have rt: "decodeKey (getPixelKey x y) = (Some x, Some y)"
    by (rule decodeKey_getPixelKey)
  show ?thesis
    by (intro conjI impI; (elim conjE)?;
        (rule rt | rule click | (drule entry, elim conjE, assumption)
         | erule export_cells(1) | erule export_cells(2) | erule export_cells(3)))
qed

theorem getPixelKey_roundtrip_witness:
  \<open>(1::nat) * 10 \<le> MAX_SAFE_INTEGER
   \<and> pixels (rendered (run initialSession [CellClick 0 0 False, CellClick 1 1 False]))
       = [(getPixelKey 0 0, ''#3b82f6''), (getPixelKey 1 1, ''#3b82f6'')]
   \<and> decodeKey (getPixelKey 1 1) = (Some 1, Some 1)
   \<and> downloadAsSVG (rendered (run initialSession [CellClick 0 0 False, CellClick 1 1 False]))
       = ''<svg width="160" height="160" xmlns="http://www.w3.org/2000/svg"><rect x="0" y="0" width="10" height="10" fill="#3b82f6"/><rect x="10" y="10" width="10" height="10" fill="#3b82f6"/></svg>''
   \<and> downloadAsPNG True True
         (rendered (run initialSession [CellClick 0 0 False, CellClick 1 1 False]))
       = Some \<lparr> cv_width = 160, cv_height = 160,
                cv_calls = [ClearRect 0 0 160 160,
                            FillStyle ''#3b82f6'', FillRect (Some 0) (Some 0) 10 10,
                            FillStyle ''#3b82f6'', FillRect (Some 10) (Some 10) 10 10] \<rparr>\<close>
proof -
  let ?s = "rendered (run initialSession [CellClick 0 0 False, CellClick 1 1 False])"
  let ?cells = "[((0, 0), ''#3b82f6''), ((1, 1), ''#3b82f6'')] :: ((nat \<times> nat) \<times> string) list"
  have b: "(1::nat) * 10 \<le> MAX_SAFE_INTEGER" "(1::nat) \<le> MAX_SAFE_INTEGER"
    by (simp_all add: MAX_SAFE_INTEGER_def)
  have h: "(\<forall>((cx, cy), c) \<in> set ?cells.
              cx * 10 \<le> MAX_SAFE_INTEGER \<and> cy * 10 \<le> MAX_SAFE_INTEGER)
           \<and> pixels ?s = map (\<lambda>((cx, cy), c). (getPixelKey cx cy, c)) ?cells"
    unfolding two_orders_pixels by (simp add: MAX_SAFE_INTEGER_def)
  note th = getPixelKey_roundtrip [of 1 1 "rendered initialSession" "pending initialSession"
      "''#3b82f6''" ?s ?cells]
  note full = th [THEN conjunct2, THEN conjunct2, THEN conjunct2, THEN mp, OF h]
  have r: "decodeKey (getPixelKey 1 1) = (Some 1, Some 1)"
    using th [THEN conjunct1] b by blast
  show ?thesis
    using full [THEN conjunct2] r b(1)
    by (simp add: two_orders_pixels two_orders_gridSize svgOpen_def String_nat_small
        del: One_nat_def)
qed

end
